theory Spec2Isabelle
  imports Main "HOL-Library.Char_ord" "HOL-Library.List_Lexorder" "HOL-Library.Multiset"
begin

section \<open>VNDK classification, link-type check and library registries (cc/vndk.go)\<close>

subsection \<open>Library helpers the file calls\<close>

text \<open>
  \<^verbatim>\<open>proptools.Bool\<close> (the blueprint library): the value behind a \<^verbatim>\<open>*bool\<close>,
  \<^verbatim>\<open>false\<close> for \<^verbatim>\<open>nil\<close>. A \<^verbatim>\<open>*bool\<close> property is a \<open>bool option\<close>.
\<close>

fun Bool :: "bool option \<Rightarrow> bool" where
  "Bool None = False"
| "Bool (Some b) = b"

text \<open>
  \<^verbatim>\<open>strings.HasPrefix\<close>, \<^verbatim>\<open>strings.TrimPrefix\<close>, \<^verbatim>\<open>strings.HasSuffix\<close> and
  \<^verbatim>\<open>strings.TrimSuffix\<close> of the Go standard library, on byte strings.
\<close>

definition HasPrefix :: "string \<Rightarrow> string \<Rightarrow> bool" where
  "HasPrefix s p = (length p \<le> length s \<and> take (length p) s = p)"

definition TrimPrefix :: "string \<Rightarrow> string \<Rightarrow> string" where
  "TrimPrefix s p = (if HasPrefix s p then drop (length p) s else s)"

definition HasSuffix :: "string \<Rightarrow> string \<Rightarrow> bool" where
  "HasSuffix s x = (length x \<le> length s \<and> drop (length s - length x) s = x)"

definition TrimSuffix :: "string \<Rightarrow> string \<Rightarrow> string" where
  "TrimSuffix s x = (if HasSuffix s x then take (length s - length x) s else s)"

text \<open>
  Modelled from the spec: the helper \<^verbatim>\<open>inList\<close> is declared in another file of the
  package. The spec's "insert if absent" makes it the membership test of a name in a
  list of names.
\<close>

fun inList :: "string \<Rightarrow> string list \<Rightarrow> bool" where
  "inList s [] = False"
| "inList s (l # list) = (if l = s then True else inList s list)"

subsection \<open>Data\<close>

text \<open>
  \<^verbatim>\<open>VndkProperties\<close>: the two optional booleans of its \<^verbatim>\<open>Vndk\<close> struct; \<^verbatim>\<open>vndkdep\<close>
  wraps them.
\<close>

record VndkProperties =
  Enabled :: "bool option"
  Support_system_process :: "bool option"

record vndkdep =
  Properties :: VndkProperties

text \<open>
  The dynamic type of a module's \<^verbatim>\<open>linker\<close>, as far as the file inspects it by type
  assertion, each with the one value the file reads from it:
  \<^item> \<^verbatim>\<open>*libraryDecorator\<close> with the result of \<^verbatim>\<open>shared()\<close>;
  \<^item> \<^verbatim>\<open>*prebuiltLibraryLinker\<close> with the result of \<^verbatim>\<open>shared()\<close>;
  \<^item> \<^verbatim>\<open>*llndkStubDecorator\<close> with \<^verbatim>\<open>Properties.Vendor_available\<close> (a plain bool);
  \<^item> any other linker type, with whether that type implements \<^verbatim>\<open>libraryInterface\<close>.
  A \<^verbatim>\<open>nil\<close> linker is \<open>None\<close> in the module.
\<close>

datatype linker =
    LibraryDecorator bool
  | PrebuiltLibraryLinker bool
  | LlndkStubDecorator bool
  | OtherLinker bool

text \<open>
  Modelled from the spec: the interface \<^verbatim>\<open>libraryInterface\<close> and the linker types are
  declared in other files of the package. The spec's violation B is about a dependency
  that "exposes a library interface (shared or static)": the library decorator and the
  prebuilt library linker, shared or static. The spec lists the LL-NDK stub as a kind of
  its own, handled by violation A.
\<close>

fun libraryInterface :: "linker \<Rightarrow> bool" where
  "libraryInterface (LibraryDecorator sh) = True"
| "libraryInterface (PrebuiltLibraryLinker sh) = True"
| "libraryInterface (LlndkStubDecorator va) = False"
| "libraryInterface (OtherLinker b) = b"

text \<open>
  \<^verbatim>\<open>*Module\<close>, with the fields the file reads: \<^verbatim>\<open>Name()\<close>, \<^verbatim>\<open>linker\<close>,
  \<^verbatim>\<open>VendorProperties.Vendor_available\<close>, \<^verbatim>\<open>Properties.UseVndk\<close> and the pointer
  \<^verbatim>\<open>vndkdep\<close>, which may be \<^verbatim>\<open>nil\<close>.
\<close>

record Module =
  Name :: string
  linker :: "linker option"
  Vendor_available :: "bool option"
  UseVndk :: bool
  vndkdep :: "vndkdep option"

text \<open>
  What \<^verbatim>\<open>mctx.Module()\<close> returns: a module of this package (\<^verbatim>\<open>*Module\<close>) or a module
  of any other type.
\<close>

datatype android_Module = CcModule Module | ForeignModule

text \<open>A call \<^verbatim>\<open>ctx.ModuleErrorf(format, args...)\<close>: the format and its arguments.\<close>

datatype errorf = ModuleErrorf string "string list"

text \<open>A run-time panic of the Go code.\<close>

datatype panic = NilPointerDereference

text \<open>The four package-level lists (the lock guards them and holds no data).\<close>

record registries =
  vndkCoreLibraries :: "string list"
  vndkSpLibraries :: "string list"
  llndkLibraries :: "string list"
  vndkPrivateLibraries :: "string list"

definition emptyRegistries :: registries where
  "emptyRegistries = \<lparr>vndkCoreLibraries = [], vndkSpLibraries = [],
     llndkLibraries = [], vndkPrivateLibraries = []\<rparr>"

subsection \<open>Classification\<close>

definition isVndk :: "vndkdep \<Rightarrow> bool" where
  "isVndk vndk = Bool (Enabled (Properties vndk))"

definition isVndkSp :: "vndkdep \<Rightarrow> bool" where
  "isVndkSp vndk = Bool (Support_system_process (Properties vndk))"

definition typeName :: "vndkdep \<Rightarrow> string" where
  "typeName vndk =
     (if \<not> isVndk vndk then ''native:vendor''
      else if \<not> isVndkSp vndk then ''native:vendor:vndk''
      else ''native:vendor:vndksp'')"

subsection \<open>The link-type check\<close>

text \<open>The three format strings of \<^verbatim>\<open>vndkCheckLinkType\<close>, in source order.\<close>

definition fmtVendorAvailableFalse :: string where
  "fmtVendorAvailableFalse =
     ''Vendor module that is not VNDK should not link to %q which is marked as `vendor_available: false`''"

definition fmtNotVendorAvailable :: string where
  "fmtNotVendorAvailable =
     ''(%s) should not link to %q which is not a vendor-available library''"

definition fmtLinkType :: string where
  "fmtLinkType = ''(%s) should not link to %q(%s)''"

text \<open>
  Lines 84-101: the block run when the dependent is not VNDK. It sets \<^verbatim>\<open>violation\<close> and
  reports once; it has no \<^verbatim>\<open>return\<close>.
\<close>

definition vendorOnlyViolation :: "linker \<Rightarrow> Module \<Rightarrow> bool" where
  "vendorOnlyViolation l to =
     (if (case l of LlndkStubDecorator va \<Rightarrow> \<not> va | _ \<Rightarrow> False) then True
      else (libraryInterface l \<and> Vendor_available to \<noteq> None
              \<and> \<not> Bool (Vendor_available to)))"

definition vendorOnlyErrors :: "vndkdep \<Rightarrow> linker \<Rightarrow> Module \<Rightarrow> errorf list" where
  "vendorOnlyErrors vndk l to =
     (if \<not> isVndk vndk then
        (if vendorOnlyViolation l to
         then [ModuleErrorf fmtVendorAvailableFalse [Name to]] else [])
      else [])"

text \<open>
  \<^verbatim>\<open>lib, ok := to.linker.(*libraryDecorator); !ok || !lib.shared()\<close>: the assertion
  is on the concrete type, so only a library decorator passes it.
\<close>

fun notSharedLibraryDecorator :: "linker \<Rightarrow> bool" where
  "notSharedLibraryDecorator (LibraryDecorator sh) = (\<not> sh)"
| "notSharedLibraryDecorator _ = True"

text \<open>
  \<^verbatim>\<open>vndkCheckLinkType\<close> with a non-nil receiver: the calls of \<^verbatim>\<open>ctx.ModuleErrorf\<close> it
  makes, in order.
\<close>

definition vndkCheckLinkType :: "vndkdep \<Rightarrow> Module \<Rightarrow> errorf list" where
  "vndkCheckLinkType vndk to =
     (case linker to of
        None \<Rightarrow> []
      | Some l \<Rightarrow>
          vendorOnlyErrors vndk l to @
          (if notSharedLibraryDecorator l then []
           else if \<not> UseVndk to then
             [ModuleErrorf fmtNotVendorAvailable [typeName vndk, Name to]]
           else
             (case vndkdep to of
                None \<Rightarrow> []
              | Some tov \<Rightarrow>
                  if (isVndk vndk \<and> \<not> isVndk tov) \<or> (isVndkSp vndk \<and> \<not> isVndkSp tov)
                  then [ModuleErrorf fmtLinkType [typeName vndk, Name to, typeName tov]]
                  else [])))"

subsection \<open>The registry builder\<close>

text \<open>
  The statement the mutator repeats for each list:
  \<^verbatim>\<open>if !inList(name, l) { l = append(l, name); sort.Strings(l) }\<close>.
  \<^verbatim>\<open>sort.Strings\<close> sorts in increasing byte-wise order.
\<close>

definition addSorted :: "string \<Rightarrow> string list \<Rightarrow> string list" where
  "addSorted name l = (if \<not> inList name l then sort (l @ [name]) else l)"

text \<open>
  \<^verbatim>\<open>(is_lib && lib.shared()) || (is_prebuilt_lib && prebuilt_lib.shared())\<close>
\<close>

fun isSharedLib :: "linker option \<Rightarrow> bool" where
  "isSharedLib (Some (LibraryDecorator sh)) = sh"
| "isSharedLib (Some (PrebuiltLibraryLinker sh)) = sh"
| "isSharedLib _ = False"

text \<open>Lines 133-146, the LL-NDK stub branch.\<close>

definition visitLlndk :: "string \<Rightarrow> registries \<Rightarrow> Module \<Rightarrow> bool \<Rightarrow> registries" where
  "visitLlndk llndkLibrarySuffix r m va =
     (let name = TrimSuffix (Name m) llndkLibrarySuffix;
          r1 = r\<lparr>llndkLibraries := addSorted name (llndkLibraries r)\<rparr>
      in if \<not> va
         then r1\<lparr>vndkPrivateLibraries := addSorted name (vndkPrivateLibraries r1)\<rparr>
         else r1)"

text \<open>Lines 153-171, run for a shared library whose \<^verbatim>\<open>vndkdep\<close> says VNDK.\<close>

definition visitVndk :: "registries \<Rightarrow> Module \<Rightarrow> vndkdep \<Rightarrow> string \<Rightarrow> registries" where
  "visitVndk r m v name =
     (let r1 = (if isVndkSp v
                then r\<lparr>vndkSpLibraries := addSorted name (vndkSpLibraries r)\<rparr>
                else r\<lparr>vndkCoreLibraries := addSorted name (vndkCoreLibraries r)\<rparr>)
      in if \<not> Bool (Vendor_available m)
         then r1\<lparr>vndkPrivateLibraries := addSorted name (vndkPrivateLibraries r1)\<rparr>
         else r1)"

text \<open>
  \<^verbatim>\<open>vndkMutator\<close>. The constant \<^verbatim>\<open>llndkLibrarySuffix\<close> is declared in another file and
  is a parameter here. \<^verbatim>\<open>m.vndkdep.isVndk()\<close> reads a field through the pointer
  \<^verbatim>\<open>m.vndkdep\<close>, which panics when the pointer is \<^verbatim>\<open>nil\<close>; no list has been touched
  at that point.
\<close>

fun vndkMutator :: "string \<Rightarrow> registries \<Rightarrow> android_Module \<Rightarrow> panic + registries" where
  "vndkMutator llndkLibrarySuffix r ForeignModule = Inr r"
| "vndkMutator llndkLibrarySuffix r (CcModule m) =
     (case linker m of
        Some (LlndkStubDecorator va) \<Rightarrow> Inr (visitLlndk llndkLibrarySuffix r m va)
      | _ \<Rightarrow>
          if isSharedLib (linker m) then
            (let name = TrimPrefix (Name m) ''prebuilt_'' in
             case vndkdep m of
               None \<Rightarrow> Inl NilPointerDereference
             | Some v \<Rightarrow> if isVndk v then Inr (visitVndk r m v name) else Inr r)
          else Inr r)"

text \<open>One traversal pass: the modules visited in the given order; a panic ends it.\<close>

fun visitAll :: "string \<Rightarrow> registries \<Rightarrow> android_Module list \<Rightarrow> panic + registries" where
  "visitAll llndkLibrarySuffix r [] = Inr r"
| "visitAll llndkLibrarySuffix r (m # ms) =
     (case vndkMutator llndkLibrarySuffix r m of
        Inl e \<Rightarrow> Inl e
      | Inr r' \<Rightarrow> visitAll llndkLibrarySuffix r' ms)"

subsection \<open>Notions used to state the properties\<close>

text \<open>The format string of a reported error.\<close>

fun errorfFormat :: "errorf \<Rightarrow> string" where
  "errorfFormat (ModuleErrorf f args) = f"

text \<open>Every list is sorted and free of duplicates.\<close>

definition sortedRegistries :: "registries \<Rightarrow> bool" where
  "sortedRegistries r =
     (sorted (vndkCoreLibraries r) \<and> distinct (vndkCoreLibraries r)
      \<and> sorted (vndkSpLibraries r) \<and> distinct (vndkSpLibraries r)
      \<and> sorted (llndkLibraries r) \<and> distinct (llndkLibraries r)
      \<and> sorted (vndkPrivateLibraries r) \<and> distinct (vndkPrivateLibraries r))"

section \<open>Properties of the classification and of the link-type check\<close>

lemma fmt_distinct:
  "fmtVendorAvailableFalse \<noteq> fmtNotVendorAvailable"
  "fmtVendorAvailableFalse \<noteq> fmtLinkType"
  "fmtNotVendorAvailable \<noteq> fmtLinkType"
  by (simp_all add: fmtVendorAvailableFalse_def fmtNotVendorAvailable_def fmtLinkType_def)

lemma vendorOnlyViolation_library:
  "l = LibraryDecorator sh \<or> l = PrebuiltLibraryLinker sh \<Longrightarrow>
   vendorOnlyViolation l to = (Vendor_available to = Some False)"
  by (cases "Vendor_available to") (auto simp: vendorOnlyViolation_def)

text \<open>
  C1 (as amended): \<^verbatim>\<open>isVndkSp()\<close> is the flag \<^verbatim>\<open>Support_system_process\<close> alone,
  whatever \<^verbatim>\<open>Vndk.Enabled\<close> is. It implies \<^verbatim>\<open>isVndk()\<close> exactly for the modules whose
  \<^verbatim>\<open>Support_system_process\<close> is true only together with \<^verbatim>\<open>Vndk.Enabled\<close> true; the
  conjunction \<^verbatim>\<open>isVndk() && isVndkSp()\<close> is \<open>vndkEnabled \<and> vndkSp\<close>, and it is this
  conjunction that \<^verbatim>\<open>typeName\<close> labels as the VNDK-SP tier.
\<close>

theorem isVndkSp_support_system_process_only:
  "isVndkSp vndk = Bool (Support_system_process (Properties vndk))
   \<and> ((isVndkSp vndk \<longrightarrow> isVndk vndk)
        = (Bool (Support_system_process (Properties vndk)) \<longrightarrow> Bool (Enabled (Properties vndk))))
   \<and> ((isVndk vndk \<and> isVndkSp vndk)
        = (Bool (Enabled (Properties vndk)) \<and> Bool (Support_system_process (Properties vndk))))
   \<and> ((typeName vndk = ''native:vendor:vndksp'') = (isVndk vndk \<and> isVndkSp vndk))"
  by (simp add: isVndkSp_def isVndk_def typeName_def)

text \<open>C1, the amended statement at a module that sets both flags.\<close>

theorem isVndkSp_support_system_process_only_witness:
  "isVndkSp \<lparr>Properties = \<lparr>Enabled = Some True, Support_system_process = Some True\<rparr>\<rparr>
   \<and> isVndk \<lparr>Properties = \<lparr>Enabled = Some True, Support_system_process = Some True\<rparr>\<rparr>
   \<and> typeName \<lparr>Properties = \<lparr>Enabled = Some True, Support_system_process = Some True\<rparr>\<rparr>
        = ''native:vendor:vndksp''"
  using isVndkSp_support_system_process_only
    [of "\<lparr>Properties = \<lparr>Enabled = Some True, Support_system_process = Some True\<rparr>\<rparr>"]
  by simp

text \<open>
  C1 as stated fails: with \<^verbatim>\<open>Support_system_process\<close> true and \<^verbatim>\<open>Vndk.Enabled\<close> unset,
  \<^verbatim>\<open>isVndkSp()\<close> is true and \<^verbatim>\<open>isVndk()\<close> is false.
\<close>

theorem isVndkSp_without_isVndk_counterexample:
  "isVndkSp \<lparr>Properties = \<lparr>Enabled = None, Support_system_process = Some True\<rparr>\<rparr>
   \<and> \<not> isVndk \<lparr>Properties = \<lparr>Enabled = None, Support_system_process = Some True\<rparr>\<rparr>"
  by (simp add: isVndkSp_def isVndk_def)

text \<open>
  C2: a prebuilt shared library with no vendor variant draws no error from
  \<^verbatim>\<open>vndkCheckLinkType\<close>, where the same module as a plain shared library draws the
  "not a vendor-available library" error: the type assertion on \<^verbatim>\<open>*libraryDecorator\<close>
  does not hold for a \<^verbatim>\<open>*prebuiltLibraryLinker\<close>, so the function returns before the
  \<^verbatim>\<open>UseVndk\<close> test.
\<close>

theorem vndkCheckLinkType_skips_prebuilt_shared:
  "vndkCheckLinkType \<lparr>Properties = \<lparr>Enabled = Some True, Support_system_process = None\<rparr>\<rparr>
     \<lparr>Name = ''prebuilt_libfoo'', linker = Some (PrebuiltLibraryLinker True),
      Vendor_available = None, UseVndk = False, vndkdep = None\<rparr> = []
   \<and> vndkCheckLinkType \<lparr>Properties = \<lparr>Enabled = Some True, Support_system_process = None\<rparr>\<rparr>
     \<lparr>Name = ''prebuilt_libfoo'', linker = Some (LibraryDecorator True),
      Vendor_available = None, UseVndk = False, vndkdep = None\<rparr>
     = [ModuleErrorf fmtNotVendorAvailable [''native:vendor:vndk'', ''prebuilt_libfoo'']]"
  by (simp add: vndkCheckLinkType_def vendorOnlyErrors_def isVndk_def isVndkSp_def typeName_def)

text \<open>
  C5: for a dependent that is not VNDK and a dependency whose linker is a library decorator
  or a prebuilt library linker (shared or static), the errors of \<^verbatim>\<open>vndkCheckLinkType\<close>
  with the "marked as vendor_available: false" format are: exactly one, naming the
  dependency, when \<^verbatim>\<open>Vendor_available\<close> is explicitly false; none otherwise (unset or true).
\<close>

theorem vendor_available_false_diagnostic:
  assumes "\<not> isVndk vndk" and "linker to = Some l"
    and "l = LibraryDecorator sh \<or> l = PrebuiltLibraryLinker sh"
  shows "filter (\<lambda>e. errorfFormat e = fmtVendorAvailableFalse) (vndkCheckLinkType vndk to)
         = (if Vendor_available to = Some False
            then [ModuleErrorf fmtVendorAvailableFalse [Name to]] else [])"
  using assms fmt_distinct vendorOnlyViolation_library[OF assms(3), of to]
  by (auto simp: vndkCheckLinkType_def vendorOnlyErrors_def split: option.splits)

text \<open>
  C5 at a plain vendor module depending on the shared library \<open>libbar\<close> with
  \<^verbatim>\<open>vendor_available: false\<close>.
\<close>

theorem vendor_available_false_diagnostic_witness:
  "\<not> isVndk \<lparr>Properties = \<lparr>Enabled = None, Support_system_process = None\<rparr>\<rparr>
   \<and> filter (\<lambda>e. errorfFormat e = fmtVendorAvailableFalse)
        (vndkCheckLinkType \<lparr>Properties = \<lparr>Enabled = None, Support_system_process = None\<rparr>\<rparr>
           \<lparr>Name = ''libbar'', linker = Some (LibraryDecorator True),
            Vendor_available = Some False, UseVndk = True, vndkdep = None\<rparr>)
      = [ModuleErrorf fmtVendorAvailableFalse [''libbar'']]"
  using vendor_available_false_diagnostic
    [of "\<lparr>Properties = \<lparr>Enabled = None, Support_system_process = None\<rparr>\<rparr>"
        "\<lparr>Name = ''libbar'', linker = Some (LibraryDecorator True),
          Vendor_available = Some False, UseVndk = True, vndkdep = None\<rparr>"
        "LibraryDecorator True" True]
  by (simp add: isVndk_def)

text \<open>
  For a dependency whose linker is a shared library decorator: a VNDK-core dependent
  (\<^verbatim>\<open>isVndk\<close>, not \<^verbatim>\<open>isVndkSp\<close>) on a VNDK-SP library with a vendor variant gets no
  error; a VNDK-SP dependent on a VNDK-core library with a vendor variant gets the
  link-type error.
\<close>

lemma tier_lattice_library_decorator:
  "(isVndk a \<and> \<not> isVndkSp a \<and> linker b = Some (LibraryDecorator True) \<and> UseVndk b
      \<and> vndkdep b = Some bv \<and> isVndk bv \<and> isVndkSp bv
      \<longrightarrow> vndkCheckLinkType a b = [])
   \<and> (isVndk c \<and> isVndkSp c \<and> linker d = Some (LibraryDecorator True) \<and> UseVndk d
      \<and> vndkdep d = Some dv \<and> isVndk dv \<and> \<not> isVndkSp dv
      \<longrightarrow> vndkCheckLinkType c d = [ModuleErrorf fmtLinkType [typeName c, Name d, typeName dv]])"
  by (simp add: vndkCheckLinkType_def vendorOnlyErrors_def)

text \<open>
  C6: a VNDK-SP dependent on the VNDK-core shared library \<open>libcore\<close> with a vendor variant
  gets the link-type error when the library's linker is a library decorator, and no error
  at all when the same library is a prebuilt shared library: the assertion on
  \<^verbatim>\<open>*libraryDecorator\<close> at line 102 fails for a \<^verbatim>\<open>*prebuiltLibraryLinker\<close> and the
  function returns before the tier test. The tier lattice is not enforced on prebuilt
  shared libraries.
\<close>

theorem tier_violation_missed_for_prebuilt_shared:
  "vndkCheckLinkType \<lparr>Properties = \<lparr>Enabled = Some True, Support_system_process = Some True\<rparr>\<rparr>
     \<lparr>Name = ''libcore'', linker = Some (PrebuiltLibraryLinker True),
      Vendor_available = Some True, UseVndk = True,
      vndkdep = Some \<lparr>Properties = \<lparr>Enabled = Some True, Support_system_process = None\<rparr>\<rparr>\<rparr>
     = []
   \<and> vndkCheckLinkType \<lparr>Properties = \<lparr>Enabled = Some True, Support_system_process = Some True\<rparr>\<rparr>
     \<lparr>Name = ''libcore'', linker = Some (LibraryDecorator True),
      Vendor_available = Some True, UseVndk = True,
      vndkdep = Some \<lparr>Properties = \<lparr>Enabled = Some True, Support_system_process = None\<rparr>\<rparr>\<rparr>
     = [ModuleErrorf fmtLinkType [''native:vendor:vndksp'', ''libcore'', ''native:vendor:vndk'']]"
  by (simp add: vndkCheckLinkType_def vendorOnlyErrors_def isVndk_def isVndkSp_def typeName_def)

text \<open>
  C7 (as amended): \<^verbatim>\<open>typeName()\<close> returns \<open>native:vendor\<close> for a module that is not
  VNDK, \<open>native:vendor:vndk\<close> for VNDK-core and \<open>native:vendor:vndksp\<close> for VNDK-SP,
  and the link-type error for a VNDK-SP module depending on a VNDK-core shared library
  with a vendor variant carries \<open>native:vendor:vndksp\<close> and \<open>native:vendor:vndk\<close>.
\<close>

theorem typeName_native_labels:
  "(\<not> isVndk vndk \<longrightarrow> typeName vndk = ''native:vendor'')
   \<and> (isVndk vndk \<and> \<not> isVndkSp vndk \<longrightarrow> typeName vndk = ''native:vendor:vndk'')
   \<and> (isVndk vndk \<and> isVndkSp vndk \<longrightarrow> typeName vndk = ''native:vendor:vndksp'')
   \<and> (isVndk a \<and> isVndkSp a \<and> linker b = Some (LibraryDecorator True) \<and> UseVndk b
        \<and> vndkdep b = Some bv \<and> isVndk bv \<and> \<not> isVndkSp bv
      \<longrightarrow> vndkCheckLinkType a b
          = [ModuleErrorf fmtLinkType [''native:vendor:vndksp'', Name b, ''native:vendor:vndk'']])"
  by (simp add: typeName_def vndkCheckLinkType_def vendorOnlyErrors_def)

text \<open>C7 (as amended) at a VNDK-SP module depending on the VNDK-core library \<open>libcore\<close>.\<close>

theorem typeName_native_labels_witness:
  "typeName \<lparr>Properties = \<lparr>Enabled = Some True, Support_system_process = Some True\<rparr>\<rparr>
     = ''native:vendor:vndksp''
   \<and> vndkCheckLinkType \<lparr>Properties = \<lparr>Enabled = Some True, Support_system_process = Some True\<rparr>\<rparr>
     \<lparr>Name = ''libcore'', linker = Some (LibraryDecorator True),
      Vendor_available = Some True, UseVndk = True,
      vndkdep = Some \<lparr>Properties = \<lparr>Enabled = Some True, Support_system_process = Some False\<rparr>\<rparr>\<rparr>
     = [ModuleErrorf fmtLinkType [''native:vendor:vndksp'', ''libcore'', ''native:vendor:vndk'']]"
  using typeName_native_labels
    [of "\<lparr>Properties = \<lparr>Enabled = Some True, Support_system_process = Some True\<rparr>\<rparr>"
        "\<lparr>Properties = \<lparr>Enabled = Some True, Support_system_process = Some True\<rparr>\<rparr>"
        "\<lparr>Name = ''libcore'', linker = Some (LibraryDecorator True),
          Vendor_available = Some True, UseVndk = True,
          vndkdep = Some \<lparr>Properties = \<lparr>Enabled = Some True, Support_system_process = Some False\<rparr>\<rparr>\<rparr>"
        "\<lparr>Properties = \<lparr>Enabled = Some True, Support_system_process = Some False\<rparr>\<rparr>"]
  by (simp add: isVndk_def isVndkSp_def)

text \<open>
  C7 as stated fails: the label of a module that is not VNDK is \<open>native:vendor\<close>, which
  is none of \<open>vendor\<close>, \<open>vendor:vndk\<close>, \<open>vendor:vndksp\<close>.
\<close>

theorem typeName_not_bare_vendor_counterexample:
  "typeName \<lparr>Properties = \<lparr>Enabled = None, Support_system_process = None\<rparr>\<rparr>
     \<notin> {''vendor'', ''vendor:vndk'', ''vendor:vndksp''}"
  by (simp add: typeName_def isVndk_def)

text \<open>
  The block for a dependent that is not VNDK does not return after reporting. For a
  dependency whose linker is a shared library decorator, with \<^verbatim>\<open>Vendor_available\<close>
  explicitly false and \<^verbatim>\<open>UseVndk\<close> false, the check reports two errors: "marked as
  vendor_available: false" and then "not a vendor-available library".
\<close>

lemma stage1_and_stage3_library_decorator:
  assumes "\<not> isVndk vndk" and "linker to = Some (LibraryDecorator True)"
    and "Vendor_available to = Some False" and "\<not> UseVndk to"
  shows "vndkCheckLinkType vndk to
         = [ModuleErrorf fmtVendorAvailableFalse [Name to],
            ModuleErrorf fmtNotVendorAvailable [typeName vndk, Name to]]"
  using assms
  by (simp add: vndkCheckLinkType_def vendorOnlyErrors_def vendorOnlyViolation_def)

text \<open>
  C9: a plain vendor module depending on the shared library \<open>libsys\<close> with
  \<^verbatim>\<open>vendor_available: false\<close> and no vendor variant gets both errors when the library's
  linker is a library decorator, and only the first when the same library is a prebuilt
  shared library: the function returns at line 105, before the \<^verbatim>\<open>UseVndk\<close> test, for
  any linker that is not a \<^verbatim>\<open>*libraryDecorator\<close>.
\<close>

theorem stage3_missed_for_prebuilt_shared:
  "vndkCheckLinkType \<lparr>Properties = \<lparr>Enabled = None, Support_system_process = None\<rparr>\<rparr>
     \<lparr>Name = ''libsys'', linker = Some (PrebuiltLibraryLinker True),
      Vendor_available = Some False, UseVndk = False, vndkdep = None\<rparr>
     = [ModuleErrorf fmtVendorAvailableFalse [''libsys'']]
   \<and> vndkCheckLinkType \<lparr>Properties = \<lparr>Enabled = None, Support_system_process = None\<rparr>\<rparr>
     \<lparr>Name = ''libsys'', linker = Some (LibraryDecorator True),
      Vendor_available = Some False, UseVndk = False, vndkdep = None\<rparr>
     = [ModuleErrorf fmtVendorAvailableFalse [''libsys''],
        ModuleErrorf fmtNotVendorAvailable [''native:vendor'', ''libsys'']]"
  by (simp add: vndkCheckLinkType_def vendorOnlyErrors_def vendorOnlyViolation_def
        isVndk_def typeName_def)

text \<open>
  For a dependency whose linker is a shared library decorator: a dependent with
  \<^verbatim>\<open>Support_system_process\<close> true and \<^verbatim>\<open>Vndk.Enabled\<close> unset or false, depending on a
  VNDK-core library with a vendor variant, gets the link-type error, with the dependent
  labelled \<open>native:vendor\<close> in it. (The error of the block for dependents that are not
  VNDK comes first when the library is \<^verbatim>\<open>vendor_available: false\<close>.)
\<close>

lemma support_system_process_without_enabled_library_decorator:
  assumes "Support_system_process (Properties vndk) = Some True"
    and "Enabled (Properties vndk) = None \<or> Enabled (Properties vndk) = Some False"
    and "linker to = Some (LibraryDecorator True)" and "UseVndk to"
    and "vndkdep to = Some tov" and "isVndk tov" and "\<not> isVndkSp tov"
  shows "vndkCheckLinkType vndk to
         = (if Vendor_available to = Some False
            then [ModuleErrorf fmtVendorAvailableFalse [Name to]] else [])
           @ [ModuleErrorf fmtLinkType [''native:vendor'', Name to, ''native:vendor:vndk'']]"
  using assms vendorOnlyViolation_library[of "LibraryDecorator True" True to]
  by (auto simp: vndkCheckLinkType_def vendorOnlyErrors_def isVndk_def isVndkSp_def typeName_def)


section \<open>Properties of the registry builder\<close>

lemma inList_set: "inList s l = (s \<in> set l)"
  by (induction l) auto

lemma set_addSorted: "set (addSorted n l) = insert n (set l)"
  by (auto simp: addSorted_def inList_set)

lemma addSorted_present: "n \<in> set l \<Longrightarrow> addSorted n l = l"
  by (simp add: addSorted_def inList_set)

lemma addSorted_Nil: "addSorted n [] = [n]"
  by (simp add: addSorted_def)

lemma sorted_distinct_addSorted:
  "sorted l \<Longrightarrow> distinct l \<Longrightarrow> sorted (addSorted n l) \<and> distinct (addSorted n l)"
  by (simp add: addSorted_def inList_set)

lemma vndkMutator_sorted:
  "sortedRegistries r \<Longrightarrow> vndkMutator sfx r m = Inr r' \<Longrightarrow> sortedRegistries r'"
  by (cases m)
     (auto simp: sortedRegistries_def visitLlndk_def visitVndk_def Let_def
        sorted_distinct_addSorted split: option.splits linker.splits if_splits)

lemma visitAll_sorted:
  "sortedRegistries r \<Longrightarrow> visitAll sfx r ms = Inr r' \<Longrightarrow> sortedRegistries r'"
proof (induction ms arbitrary: r)
  case Nil
  then show ?case by simp
next
  case (Cons m ms)
  then show ?case
    by (auto split: sum.splits dest: vndkMutator_sorted)
qed

lemma vndkMutator_panic_any_state:
  "isl (vndkMutator sfx r m) = isl (vndkMutator sfx r0 m)"
  by (cases m) (auto split: option.splits linker.splits)

lemma vndkMutator_sets:
  assumes "vndkMutator sfx r m = Inr r'" and "vndkMutator sfx emptyRegistries m = Inr e"
  shows "set (vndkCoreLibraries r') = set (vndkCoreLibraries r) \<union> set (vndkCoreLibraries e)"
    and "set (vndkSpLibraries r') = set (vndkSpLibraries r) \<union> set (vndkSpLibraries e)"
    and "set (llndkLibraries r') = set (llndkLibraries r) \<union> set (llndkLibraries e)"
    and "set (vndkPrivateLibraries r') = set (vndkPrivateLibraries r) \<union> set (vndkPrivateLibraries e)"
  using assms
  by (cases m; auto simp: emptyRegistries_def visitLlndk_def visitVndk_def Let_def
        set_addSorted split: option.splits linker.splits if_splits)+


lemma vndkMutator_no_panic_empty:
  "vndkMutator sfx r m = Inr r' \<Longrightarrow> \<exists>e. vndkMutator sfx emptyRegistries m = Inr e"
  using vndkMutator_panic_any_state[of sfx r m emptyRegistries]
  by (cases "vndkMutator sfx emptyRegistries m") auto

lemma visitAll_panics:
  "isl (visitAll sfx r ms) = (\<exists>m\<in>set ms. isl (vndkMutator sfx emptyRegistries m))"
proof (induction ms arbitrary: r)
  case Nil
  then show ?case by simp
next
  case (Cons m ms)
  show ?case
  proof (cases "vndkMutator sfx r m")
    case (Inl p)
    then have "isl (vndkMutator sfx emptyRegistries m)"
      using vndkMutator_panic_any_state[of sfx r m emptyRegistries] by simp
    with Inl show ?thesis by simp
  next
    case (Inr r1)
    then have "\<not> isl (vndkMutator sfx emptyRegistries m)"
      using vndkMutator_panic_any_state[of sfx r m emptyRegistries] by simp
    with Inr Cons.IH[of r1] show ?thesis by simp
  qed
qed

lemma visitAll_sets_field:
  assumes step: "\<And>r m r' e. vndkMutator sfx r m = Inr r' \<Longrightarrow>
        vndkMutator sfx emptyRegistries m = Inr e \<Longrightarrow> set (X r') = set (X r) \<union> set (X e)"
    and run: "visitAll sfx r ms = Inr r'"
  shows "set (X r') = set (X r) \<union>
           (\<Union>m\<in>set ms. case vndkMutator sfx emptyRegistries m of
                            Inl p \<Rightarrow> {} | Inr e \<Rightarrow> set (X e))"
  using run
proof (induction ms arbitrary: r)
  case Nil
  then show ?case by simp
next
  case (Cons m ms)
  from Cons.prems obtain r1 where r1: "vndkMutator sfx r m = Inr r1"
    and rest: "visitAll sfx r1 ms = Inr r'"
    by (auto split: sum.splits)
  from r1 obtain e where e: "vndkMutator sfx emptyRegistries m = Inr e"
    using vndkMutator_no_panic_empty by blast
  have "set (X r1) = set (X r) \<union> set (X e)"
    using step[OF r1 e] .
  with Cons.IH[OF rest] e show ?case by auto
qed

lemma visitAll_sets:
  assumes "visitAll sfx r ms = Inr r'"
  shows "set (vndkCoreLibraries r') = set (vndkCoreLibraries r) \<union>
           (\<Union>m\<in>set ms. case vndkMutator sfx emptyRegistries m of
                            Inl p \<Rightarrow> {} | Inr e \<Rightarrow> set (vndkCoreLibraries e))"
    and "set (vndkSpLibraries r') = set (vndkSpLibraries r) \<union>
           (\<Union>m\<in>set ms. case vndkMutator sfx emptyRegistries m of
                            Inl p \<Rightarrow> {} | Inr e \<Rightarrow> set (vndkSpLibraries e))"
    and "set (llndkLibraries r') = set (llndkLibraries r) \<union>
           (\<Union>m\<in>set ms. case vndkMutator sfx emptyRegistries m of
                            Inl p \<Rightarrow> {} | Inr e \<Rightarrow> set (llndkLibraries e))"
    and "set (vndkPrivateLibraries r') = set (vndkPrivateLibraries r) \<union>
           (\<Union>m\<in>set ms. case vndkMutator sfx emptyRegistries m of
                            Inl p \<Rightarrow> {} | Inr e \<Rightarrow> set (vndkPrivateLibraries e))"
  by (rule visitAll_sets_field[OF _ assms]; rule vndkMutator_sets; assumption)+

lemma sortedRegistries_empty: "sortedRegistries emptyRegistries"
  by (simp add: sortedRegistries_def emptyRegistries_def)

lemma sortedRegistries_eqI:
  assumes "sortedRegistries a" and "sortedRegistries b"
    and "set (vndkCoreLibraries a) = set (vndkCoreLibraries b)"
    and "set (vndkSpLibraries a) = set (vndkSpLibraries b)"
    and "set (llndkLibraries a) = set (llndkLibraries b)"
    and "set (vndkPrivateLibraries a) = set (vndkPrivateLibraries b)"
  shows "a = b"
proof -
  have "vndkCoreLibraries a = vndkCoreLibraries b"
    using assms by (simp add: sortedRegistries_def sorted_distinct_set_unique)
  moreover have "vndkSpLibraries a = vndkSpLibraries b"
    using assms by (simp add: sortedRegistries_def sorted_distinct_set_unique)
  moreover have "llndkLibraries a = llndkLibraries b"
    using assms by (simp add: sortedRegistries_def sorted_distinct_set_unique)
  moreover have "vndkPrivateLibraries a = vndkPrivateLibraries b"
    using assms by (simp add: sortedRegistries_def sorted_distinct_set_unique)
  ultimately show ?thesis by simp
qed

lemma visitAll_same_set:
  assumes "set ms = set ms'"
  shows "visitAll sfx emptyRegistries ms = visitAll sfx emptyRegistries ms'"
proof (cases "visitAll sfx emptyRegistries ms")
  case (Inl p)
  then have "isl (visitAll sfx emptyRegistries ms')"
    using visitAll_panics[of sfx emptyRegistries ms] visitAll_panics[of sfx emptyRegistries ms'] assms
    by simp
  then obtain q where "visitAll sfx emptyRegistries ms' = Inl q"
    by (cases "visitAll sfx emptyRegistries ms'") auto
  with Inl show ?thesis by (cases p; cases q) simp
next
  case (Inr a)
  then have "\<not> isl (visitAll sfx emptyRegistries ms')"
    using visitAll_panics[of sfx emptyRegistries ms] visitAll_panics[of sfx emptyRegistries ms'] assms
    by simp
  then obtain b where b: "visitAll sfx emptyRegistries ms' = Inr b"
    by (cases "visitAll sfx emptyRegistries ms'") auto
  have "a = b"
  proof (rule sortedRegistries_eqI)
    show "sortedRegistries a" using visitAll_sorted[OF sortedRegistries_empty Inr] .
    show "sortedRegistries b" using visitAll_sorted[OF sortedRegistries_empty b] .
  qed (simp_all add: visitAll_sets[OF Inr] visitAll_sets[OF b] assms)
  with Inr b show ?thesis by simp
qed

lemma vndkMutator_revisit:
  assumes "vndkMutator sfx emptyRegistries m = Inr e"
    and "set (vndkCoreLibraries e) \<subseteq> set (vndkCoreLibraries r)"
    and "set (vndkSpLibraries e) \<subseteq> set (vndkSpLibraries r)"
    and "set (llndkLibraries e) \<subseteq> set (llndkLibraries r)"
    and "set (vndkPrivateLibraries e) \<subseteq> set (vndkPrivateLibraries r)"
  shows "vndkMutator sfx r m = Inr r"
  using assms
  by (cases m)
     (auto simp: emptyRegistries_def visitLlndk_def visitVndk_def Let_def addSorted_Nil
        addSorted_present split: option.splits linker.splits if_splits)

lemma visitAll_revisit:
  assumes run: "visitAll sfx r0 ms = Inr r" and m: "m \<in> set ms"
  shows "vndkMutator sfx r m = Inr r"
proof -
  have "\<not> isl (vndkMutator sfx emptyRegistries m)"
    using visitAll_panics[of sfx r0 ms] run m by auto
  then obtain e where e: "vndkMutator sfx emptyRegistries m = Inr e"
    by (cases "vndkMutator sfx emptyRegistries m") auto
  show ?thesis
    by (rule vndkMutator_revisit[OF e]) (use e m in \<open>auto simp: visitAll_sets[OF run]\<close>)
qed

text \<open>
  C8: the lists depend only on the set of visited modules. Visiting again a module that
  the pass has already visited leaves all four lists as they are; two passes from empty
  lists over module lists with the same elements (in particular, over a list and any
  permutation of it) end alike, in the same four lists or in the same panic; and the
  lists a pass ends with are sorted.
\<close>

theorem registries_function_of_visited_set:
  "(visitAll sfx r0 ms = Inr r \<and> m \<in> set ms \<longrightarrow> vndkMutator sfx r m = Inr r)
   \<and> (set ms = set ms' \<longrightarrow>
        visitAll sfx emptyRegistries ms = visitAll sfx emptyRegistries ms')
   \<and> (mset ms = mset ms' \<longrightarrow>
        visitAll sfx emptyRegistries ms = visitAll sfx emptyRegistries ms')
   \<and> (visitAll sfx emptyRegistries ms = Inr r \<longrightarrow>
        sorted (vndkCoreLibraries r) \<and> sorted (vndkSpLibraries r)
        \<and> sorted (llndkLibraries r) \<and> sorted (vndkPrivateLibraries r))"
proof (intro conjI impI)
  assume "visitAll sfx r0 ms = Inr r \<and> m \<in> set ms"
  then show "vndkMutator sfx r m = Inr r"
    using visitAll_revisit by blast
next
  assume "set ms = set ms'"
  then show "visitAll sfx emptyRegistries ms = visitAll sfx emptyRegistries ms'"
    by (rule visitAll_same_set)
next
  assume "mset ms = mset ms'"
  then have "set ms = set ms'" by (rule mset_eq_setD)
  then show "visitAll sfx emptyRegistries ms = visitAll sfx emptyRegistries ms'"
    by (rule visitAll_same_set)
next
  assume run: "visitAll sfx emptyRegistries ms = Inr r"
  have s: "sortedRegistries r"
    using visitAll_sorted[OF sortedRegistries_empty run] .
  show "sorted (vndkCoreLibraries r)" using s by (simp add: sortedRegistries_def)
  show "sorted (vndkSpLibraries r)" using s by (simp add: sortedRegistries_def)
  show "sorted (llndkLibraries r)" using s by (simp add: sortedRegistries_def)
  show "sorted (vndkPrivateLibraries r)" using s by (simp add: sortedRegistries_def)
qed


text \<open>
  C8 at a pass over the VNDK-core libraries \<open>libz\<close> and \<open>liba\<close> and the LL-NDK stub
  \<open>libc.llndk\<close>: a second visit of \<open>libz\<close> changes nothing, and the pass in reverse
  order ends in the same lists.
\<close>

theorem registries_function_of_visited_set_witness:
  "visitAll ''.llndk'' emptyRegistries
     [CcModule \<lparr>Name = ''libz'', linker = Some (LibraryDecorator True),
        Vendor_available = Some True, UseVndk = True,
        vndkdep = Some \<lparr>Properties = \<lparr>Enabled = Some True, Support_system_process = None\<rparr>\<rparr>\<rparr>,
      CcModule \<lparr>Name = ''liba'', linker = Some (LibraryDecorator True),
        Vendor_available = None, UseVndk = True,
        vndkdep = Some \<lparr>Properties = \<lparr>Enabled = Some True, Support_system_process = None\<rparr>\<rparr>\<rparr>,
      CcModule \<lparr>Name = ''libc.llndk'', linker = Some (LlndkStubDecorator False),
        Vendor_available = None, UseVndk = True, vndkdep = None\<rparr>]
   = Inr \<lparr>vndkCoreLibraries = [''liba'', ''libz''], vndkSpLibraries = [],
          llndkLibraries = [''libc''], vndkPrivateLibraries = [''liba'', ''libc'']\<rparr>
   \<and> vndkMutator ''.llndk''
       \<lparr>vndkCoreLibraries = [''liba'', ''libz''], vndkSpLibraries = [],
        llndkLibraries = [''libc''], vndkPrivateLibraries = [''liba'', ''libc'']\<rparr>
       (CcModule \<lparr>Name = ''libz'', linker = Some (LibraryDecorator True),
        Vendor_available = Some True, UseVndk = True,
        vndkdep = Some \<lparr>Properties = \<lparr>Enabled = Some True, Support_system_process = None\<rparr>\<rparr>\<rparr>)
     = Inr \<lparr>vndkCoreLibraries = [''liba'', ''libz''], vndkSpLibraries = [],
          llndkLibraries = [''libc''], vndkPrivateLibraries = [''liba'', ''libc'']\<rparr>
   \<and> visitAll ''.llndk'' emptyRegistries
     [CcModule \<lparr>Name = ''libc.llndk'', linker = Some (LlndkStubDecorator False),
        Vendor_available = None, UseVndk = True, vndkdep = None\<rparr>,
      CcModule \<lparr>Name = ''liba'', linker = Some (LibraryDecorator True),
        Vendor_available = None, UseVndk = True,
        vndkdep = Some \<lparr>Properties = \<lparr>Enabled = Some True, Support_system_process = None\<rparr>\<rparr>\<rparr>,
      CcModule \<lparr>Name = ''libz'', linker = Some (LibraryDecorator True),
        Vendor_available = Some True, UseVndk = True,
        vndkdep = Some \<lparr>Properties = \<lparr>Enabled = Some True, Support_system_process = None\<rparr>\<rparr>\<rparr>]
   = Inr \<lparr>vndkCoreLibraries = [''liba'', ''libz''], vndkSpLibraries = [],
          llndkLibraries = [''libc''], vndkPrivateLibraries = [''liba'', ''libc'']\<rparr>"
proof -
  let ?z = "CcModule \<lparr>Name = ''libz'', linker = Some (LibraryDecorator True),
        Vendor_available = Some True, UseVndk = True,
        vndkdep = Some \<lparr>Properties = \<lparr>Enabled = Some True, Support_system_process = None\<rparr>\<rparr>\<rparr>"
  let ?a = "CcModule \<lparr>Name = ''liba'', linker = Some (LibraryDecorator True),
        Vendor_available = None, UseVndk = True,
        vndkdep = Some \<lparr>Properties = \<lparr>Enabled = Some True, Support_system_process = None\<rparr>\<rparr>\<rparr>"
  let ?c = "CcModule \<lparr>Name = ''libc.llndk'', linker = Some (LlndkStubDecorator False),
        Vendor_available = None, UseVndk = True, vndkdep = None\<rparr>"
  let ?r = "\<lparr>vndkCoreLibraries = [''liba'', ''libz''], vndkSpLibraries = [],
          llndkLibraries = [''libc''], vndkPrivateLibraries = [''liba'', ''libc'']\<rparr>"
  note t = registries_function_of_visited_set
    [of "''.llndk''" emptyRegistries "[?z, ?a, ?c]" ?r ?z "[?c, ?a, ?z]"]
  have run: "visitAll ''.llndk'' emptyRegistries [?z, ?a, ?c] = Inr ?r"
    by (simp add: emptyRegistries_def visitVndk_def visitLlndk_def isVndk_def isVndkSp_def
          addSorted_def TrimPrefix_def HasPrefix_def TrimSuffix_def HasSuffix_def Let_def)
  have again: "vndkMutator ''.llndk'' ?r ?z = Inr ?r"
    using t run by simp
  have "set [?z, ?a, ?c] = set [?c, ?a, ?z]"
    by auto
  then have "visitAll ''.llndk'' emptyRegistries [?z, ?a, ?c]
             = visitAll ''.llndk'' emptyRegistries [?c, ?a, ?z]"
    using t by blast
  with run again show ?thesis by simp
qed

lemma vndkMutator_empty_core:
  assumes "vndkMutator sfx emptyRegistries m = Inr e" and "n \<in> set (vndkCoreLibraries e)"
  shows "\<exists>x v. m = CcModule x \<and> isSharedLib (linker x) \<and> vndkdep x = Some v \<and> isVndk v
           \<and> \<not> isVndkSp v \<and> n = TrimPrefix (Name x) ''prebuilt_''"
  using assms
  by (cases m)
     (auto simp: emptyRegistries_def visitLlndk_def visitVndk_def Let_def addSorted_Nil
        split: option.splits linker.splits if_splits)

lemma vndkMutator_empty_sp:
  assumes "vndkMutator sfx emptyRegistries m = Inr e" and "n \<in> set (vndkSpLibraries e)"
  shows "\<exists>x v. m = CcModule x \<and> isSharedLib (linker x) \<and> vndkdep x = Some v \<and> isVndk v
           \<and> isVndkSp v \<and> n = TrimPrefix (Name x) ''prebuilt_''"
  using assms
  by (cases m)
     (auto simp: emptyRegistries_def visitLlndk_def visitVndk_def Let_def addSorted_Nil
        split: option.splits linker.splits if_splits)

lemma visitAll_empty_member:
  assumes run: "visitAll sfx emptyRegistries ms = Inr r"
  shows "n \<in> set (vndkCoreLibraries r) \<Longrightarrow>
           \<exists>m\<in>set ms. \<exists>e. vndkMutator sfx emptyRegistries m = Inr e
              \<and> n \<in> set (vndkCoreLibraries e)"
    and "n \<in> set (vndkSpLibraries r) \<Longrightarrow>
           \<exists>m\<in>set ms. \<exists>e. vndkMutator sfx emptyRegistries m = Inr e
              \<and> n \<in> set (vndkSpLibraries e)"
proof -
  assume "n \<in> set (vndkCoreLibraries r)"
  then obtain m where m: "m \<in> set ms"
      "n \<in> (case vndkMutator sfx emptyRegistries m of
               Inl p \<Rightarrow> {} | Inr e \<Rightarrow> set (vndkCoreLibraries e))"
    unfolding visitAll_sets(1)[OF run] by (auto simp: emptyRegistries_def)
  then show "\<exists>m\<in>set ms. \<exists>e. vndkMutator sfx emptyRegistries m = Inr e
              \<and> n \<in> set (vndkCoreLibraries e)"
    by (cases "vndkMutator sfx emptyRegistries m") auto
next
  assume "n \<in> set (vndkSpLibraries r)"
  then obtain m where m: "m \<in> set ms"
      "n \<in> (case vndkMutator sfx emptyRegistries m of
               Inl p \<Rightarrow> {} | Inr e \<Rightarrow> set (vndkSpLibraries e))"
    unfolding visitAll_sets(2)[OF run] by (auto simp: emptyRegistries_def)
  then show "\<exists>m\<in>set ms. \<exists>e. vndkMutator sfx emptyRegistries m = Inr e
              \<and> n \<in> set (vndkSpLibraries e)"
    by (cases "vndkMutator sfx emptyRegistries m") auto
qed

text \<open>
  C3 as stated fails: after visiting the VNDK-SP shared library \<open>libfoo\<close> and the
  VNDK-core prebuilt shared library \<open>prebuilt_libfoo\<close>, the name \<open>libfoo\<close> is in both
  \<^verbatim>\<open>vndkCoreLibraries\<close> and \<^verbatim>\<open>vndkSpLibraries\<close>.
\<close>

theorem vndkCore_vndkSp_overlap_counterexample:
  "visitAll ''.llndk'' emptyRegistries
     [CcModule \<lparr>Name = ''libfoo'', linker = Some (LibraryDecorator True),
        Vendor_available = Some True, UseVndk = True,
        vndkdep = Some \<lparr>Properties = \<lparr>Enabled = Some True, Support_system_process = Some True\<rparr>\<rparr>\<rparr>,
      CcModule \<lparr>Name = ''prebuilt_libfoo'', linker = Some (PrebuiltLibraryLinker True),
        Vendor_available = Some True, UseVndk = True,
        vndkdep = Some \<lparr>Properties = \<lparr>Enabled = Some True, Support_system_process = None\<rparr>\<rparr>\<rparr>]
   = Inr \<lparr>vndkCoreLibraries = [''libfoo''], vndkSpLibraries = [''libfoo''],
          llndkLibraries = [], vndkPrivateLibraries = []\<rparr>"
  by (simp add: emptyRegistries_def visitVndk_def isVndk_def isVndkSp_def addSorted_def
        TrimPrefix_def HasPrefix_def)

text \<open>
  C3 (as amended): after a pass from empty lists, no name is in both
  \<^verbatim>\<open>vndkCoreLibraries\<close> and \<^verbatim>\<open>vndkSpLibraries\<close>, provided that any two visited VNDK
  shared libraries (plain or prebuilt) whose names coincide after stripping the prefix
  \<open>prebuilt_\<close> agree on \<^verbatim>\<open>isVndkSp()\<close>.
\<close>

theorem vndkCore_vndkSp_disjoint_when_tiers_agree:
  assumes agree: "\<And>x y v w. CcModule x \<in> set ms \<Longrightarrow> CcModule y \<in> set ms \<Longrightarrow>
        isSharedLib (linker x) \<Longrightarrow> isSharedLib (linker y) \<Longrightarrow>
        vndkdep x = Some v \<Longrightarrow> vndkdep y = Some w \<Longrightarrow> isVndk v \<Longrightarrow> isVndk w \<Longrightarrow>
        TrimPrefix (Name x) ''prebuilt_'' = TrimPrefix (Name y) ''prebuilt_'' \<Longrightarrow>
        isVndkSp v = isVndkSp w"
    and run: "visitAll sfx emptyRegistries ms = Inr r"
  shows "set (vndkCoreLibraries r) \<inter> set (vndkSpLibraries r) = {}"
proof (rule ccontr)
  assume "set (vndkCoreLibraries r) \<inter> set (vndkSpLibraries r) \<noteq> {}"
  then obtain n where c: "n \<in> set (vndkCoreLibraries r)" and s: "n \<in> set (vndkSpLibraries r)"
    by auto
  from visitAll_empty_member(1)[OF run c]
  obtain m1 e1 where m1: "m1 \<in> set ms" "vndkMutator sfx emptyRegistries m1 = Inr e1"
      "n \<in> set (vndkCoreLibraries e1)"
    by blast
  from visitAll_empty_member(2)[OF run s]
  obtain m2 e2 where m2: "m2 \<in> set ms" "vndkMutator sfx emptyRegistries m2 = Inr e2"
      "n \<in> set (vndkSpLibraries e2)"
    by blast
  from vndkMutator_empty_core[OF m1(2,3)] obtain x v where
    x: "m1 = CcModule x" "isSharedLib (linker x)" "vndkdep x = Some v" "isVndk v"
       "\<not> isVndkSp v" "n = TrimPrefix (Name x) ''prebuilt_''"
    by blast
  from vndkMutator_empty_sp[OF m2(2,3)] obtain y w where
    y: "m2 = CcModule y" "isSharedLib (linker y)" "vndkdep y = Some w" "isVndk w"
       "isVndkSp w" "n = TrimPrefix (Name y) ''prebuilt_''"
    by blast
  have "isVndkSp v = isVndkSp w"
    using agree[of x y v w] m1(1) m2(1) x y by simp
  with x(5) y(5) show False by simp
qed


text \<open>
  C3 (as amended) at a pass over the VNDK-SP libraries \<open>libfoo\<close> and \<open>prebuilt_libfoo\<close>
  and the VNDK-core library \<open>libbar\<close>.
\<close>

theorem vndkCore_vndkSp_disjoint_when_tiers_agree_witness:
  "visitAll ''.llndk'' emptyRegistries
     [CcModule \<lparr>Name = ''libfoo'', linker = Some (LibraryDecorator True),
        Vendor_available = Some True, UseVndk = True,
        vndkdep = Some \<lparr>Properties = \<lparr>Enabled = Some True, Support_system_process = Some True\<rparr>\<rparr>\<rparr>,
      CcModule \<lparr>Name = ''prebuilt_libfoo'', linker = Some (PrebuiltLibraryLinker True),
        Vendor_available = Some True, UseVndk = True,
        vndkdep = Some \<lparr>Properties = \<lparr>Enabled = Some True, Support_system_process = Some True\<rparr>\<rparr>\<rparr>,
      CcModule \<lparr>Name = ''libbar'', linker = Some (LibraryDecorator True),
        Vendor_available = Some True, UseVndk = True,
        vndkdep = Some \<lparr>Properties = \<lparr>Enabled = Some True, Support_system_process = None\<rparr>\<rparr>\<rparr>]
   = Inr \<lparr>vndkCoreLibraries = [''libbar''], vndkSpLibraries = [''libfoo''],
          llndkLibraries = [], vndkPrivateLibraries = []\<rparr>
   \<and> set (vndkCoreLibraries \<lparr>vndkCoreLibraries = [''libbar''], vndkSpLibraries = [''libfoo''],
          llndkLibraries = [], vndkPrivateLibraries = []\<rparr>)
     \<inter> set (vndkSpLibraries \<lparr>vndkCoreLibraries = [''libbar''], vndkSpLibraries = [''libfoo''],
          llndkLibraries = [], vndkPrivateLibraries = []\<rparr>) = {}"
proof -
  let ?ms = "[CcModule \<lparr>Name = ''libfoo'', linker = Some (LibraryDecorator True),
        Vendor_available = Some True, UseVndk = True,
        vndkdep = Some \<lparr>Properties = \<lparr>Enabled = Some True, Support_system_process = Some True\<rparr>\<rparr>\<rparr>,
      CcModule \<lparr>Name = ''prebuilt_libfoo'', linker = Some (PrebuiltLibraryLinker True),
        Vendor_available = Some True, UseVndk = True,
        vndkdep = Some \<lparr>Properties = \<lparr>Enabled = Some True, Support_system_process = Some True\<rparr>\<rparr>\<rparr>,
      CcModule \<lparr>Name = ''libbar'', linker = Some (LibraryDecorator True),
        Vendor_available = Some True, UseVndk = True,
        vndkdep = Some \<lparr>Properties = \<lparr>Enabled = Some True, Support_system_process = None\<rparr>\<rparr>\<rparr>]"
  let ?r = "\<lparr>vndkCoreLibraries = [''libbar''], vndkSpLibraries = [''libfoo''],
          llndkLibraries = [], vndkPrivateLibraries = []\<rparr>"
  have run: "visitAll ''.llndk'' emptyRegistries ?ms = Inr ?r"
    by (simp add: emptyRegistries_def visitVndk_def isVndk_def isVndkSp_def addSorted_def
          TrimPrefix_def HasPrefix_def)
  have "set (vndkCoreLibraries ?r) \<inter> set (vndkSpLibraries ?r) = {}"
  proof (rule vndkCore_vndkSp_disjoint_when_tiers_agree[OF _ run])
    fix x y v w
    assume "CcModule x \<in> set ?ms" "CcModule y \<in> set ?ms"
      "vndkdep x = Some v" "vndkdep y = Some w"
      "TrimPrefix (Name x) ''prebuilt_'' = TrimPrefix (Name y) ''prebuilt_''"
    then show "isVndkSp v = isVndkSp w"
      by (auto simp: isVndkSp_def TrimPrefix_def HasPrefix_def)
  qed
  with run show ?thesis by simp
qed

text \<open>
  C4: visiting a shared library, plain or prebuilt, whose \<^verbatim>\<open>vndkdep\<close> pointer is
  \<^verbatim>\<open>nil\<close> panics, whatever the lists hold: \<^verbatim>\<open>m.vndkdep.isVndk()\<close> dereferences the
  pointer, and the mutator has no test like the \<^verbatim>\<open>to.vndkdep == nil\<close> of
  \<^verbatim>\<open>vndkCheckLinkType\<close>.
\<close>

theorem vndkMutator_nil_vndkdep_panics:
  "vndkMutator sfx r (CcModule \<lparr>Name = ''libfoo'', linker = Some (LibraryDecorator True),
      Vendor_available = None, UseVndk = True, vndkdep = None\<rparr>) = Inl NilPointerDereference
   \<and> vndkMutator sfx r (CcModule \<lparr>Name = ''prebuilt_libfoo'',
      linker = Some (PrebuiltLibraryLinker True),
      Vendor_available = None, UseVndk = True, vndkdep = None\<rparr>) = Inl NilPointerDereference"
  by simp

end
